theory Spec2Isabelle
  imports
    Complex_Main
    "HOL-Library.Char_ord"
    "HOL-Library.List_Lexorder"
    "HOL-Library.Product_Lexorder"
begin

section \<open>Data model\<close>

text \<open>
  The dashboard script \<^verbatim>\<open>dashboard.py\<close> works on one table, the frame read from the
  spreadsheet. A frame is the list of its rows, in row order. The columns the script
  touches are the fields of a row:
  \<^item> \<^verbatim>\<open>neName\<close> and \<^verbatim>\<open>severity\<close> are string columns; a blank cell is the null value,
    \<open>None\<close>. Strings are byte lists (UTF-8), so that comparing two of them
    lexicographically is comparing them by code points, as the script's language does;
  \<^item> \<^verbatim>\<open>numberOfOccurrences\<close> is an integer column without blank cells;
  \<^item> \<^verbatim>\<open>firstTimeDetected\<close> holds a raw cell before loading and a timestamp or the
    null timestamp afterwards, so the row type is polymorphic in it;
  \<^item> \<^verbatim>\<open>lastTimeDetected\<close> is an optional column: \<open>None\<close> when the table has no such
    column.
  A timestamp is the number of milliseconds since the epoch.
\<close>

type_synonym timestamp = int

record 't row =
  neName :: "string option"
  severity :: "string option"
  numberOfOccurrences :: int
  firstTimeDetected :: 't
  lastTimeDetected :: "'t option"

type_synonym frame = "timestamp option row list"


section \<open>Loader\<close>

text \<open>
  \<^verbatim>\<open>load_data\<close> converts the two time columns with the library's
  \<^verbatim>\<open>to_datetime(..., unit="ms", errors="coerce")\<close> and drops the rows whose first
  detection time is null. The conversion of one cell belongs to the dataframe library;
  it is the parameter \<open>to_datetime\<close>, which returns \<open>None\<close> for a cell it cannot
  convert (the coerced null timestamp).
\<close>

definition convert_row :: "('c \<Rightarrow> timestamp option) \<Rightarrow> 'c row \<Rightarrow> timestamp option row" where
  "convert_row to_datetime r =
     \<lparr>neName = neName r, severity = severity r,
      numberOfOccurrences = numberOfOccurrences r,
      firstTimeDetected = to_datetime (firstTimeDetected r),
      lastTimeDetected = map_option to_datetime (lastTimeDetected r)\<rparr>"

definition dropna_firstTimeDetected :: "frame \<Rightarrow> frame" where
  "dropna_firstTimeDetected df = filter (\<lambda>r. firstTimeDetected r \<noteq> None) df"

definition load_data :: "('c \<Rightarrow> timestamp option) \<Rightarrow> 'c row list \<Rightarrow> frame" where
  "load_data to_datetime xlsx =
     dropna_firstTimeDetected (map (convert_row to_datetime) xlsx)"

text \<open>
  A conversion for numeric cells, used to run the loader on concrete tables: a blank cell
  has no timestamp, and a number of milliseconds is a timestamp when it fits the
  library's signed 64-bit count of nanoseconds.
\<close>

definition to_datetime_ms :: "int option \<Rightarrow> timestamp option" where
  "to_datetime_ms c =
     (case c of
        None \<Rightarrow> None
      | Some n \<Rightarrow> if - 9223372036854 \<le> n \<and> n \<le> 9223372036854 then Some n else None)"


section \<open>Filter\<close>

text \<open>
  \<^verbatim>\<open>df["severity"].str.lower().isin(severity_filter)\<close>: the severity is lowercased
  (a null stays null) and looked up in the selection; a null is in no selection of
  strings. The selection is what the multiselect over the words critical, major and
  minor returns: a list of these words, possibly empty. Lowercasing maps the letters A
  to Z to a to z. No other code point lowercases to a letter of the selectable words,
  so this decides membership in a selection as the library does.
\<close>

definition lower_char :: "char \<Rightarrow> char" where
  "lower_char c =
     (if CHR ''A'' \<le> c \<and> c \<le> CHR ''Z'' then char_of (of_char c + (32::nat)) else c)"

definition str_lower :: "string \<Rightarrow> string" where
  "str_lower s = map lower_char s"

definition isin :: "string option \<Rightarrow> string list \<Rightarrow> bool" where
  "isin v vals = (case v of None \<Rightarrow> False | Some s \<Rightarrow> s \<in> set vals)"

definition filter_data :: "string list \<Rightarrow> frame \<Rightarrow> frame" where
  "filter_data severity_filter df =
     (if severity_filter \<noteq> []
      then filter (\<lambda>r. isin (map_option str_lower (severity r)) severity_filter) df
      else df)"


section \<open>Aggregation\<close>

text \<open>
  \<^verbatim>\<open>df.groupby(key)[col].sum()\<close>: rows whose key is null belong to no group (the
  library's default), there is one output row per distinct key, in ascending key order,
  and its value is the sum of the column over the rows of that key. The counts and
  their sums are mathematical integers; the wrap-around of a 64-bit column is not
  modelled.
\<close>

definition groupby_sum ::
  "('r \<Rightarrow> 'k::linorder option) \<Rightarrow> ('r \<Rightarrow> int) \<Rightarrow> 'r list \<Rightarrow> ('k \<times> int) list" where
  "groupby_sum key col df =
     map (\<lambda>k. (k, sum_list (map col (filter (\<lambda>r. key r = Some k) df))))
       (sort (remdups (List.map_filter key df)))"

text \<open>
  \<^verbatim>\<open>sort_values(by="numberOfOccurrences", ascending=False)\<close>. The library does not
  fix the order of rows with equal totals; the model keeps them in group order.
\<close>

definition sort_values_desc :: "('k \<times> int) list \<Rightarrow> ('k \<times> int) list" where
  "sort_values_desc t = sort_key (\<lambda>kv. - snd kv) t"

definition site_criticals :: "frame \<Rightarrow> (string \<times> int) list" where
  "site_criticals df = sort_values_desc (groupby_sum neName numberOfOccurrences df)"

text \<open>The maximum of a column; an empty column has none.\<close>

fun series_max :: "int list \<Rightarrow> int option" where
  "series_max [] = None"
| "series_max (x # xs) = Some (fold max xs x)"

definition top_sites :: "(string \<times> int) list \<Rightarrow> string list" where
  "top_sites sc =
     (let max_crit = series_max (map snd sc)
      in map fst (filter (\<lambda>kv. Some (snd kv) = max_crit) sc))"

text \<open>The marker appended to a top site: a space and the code point U+1F6A8 in UTF-8.\<close>

definition marker :: string where
  "marker = [CHR '' '', CHR 0xF0, CHR 0x9F, CHR 0x9A, CHR 0xA8]"

definition mark :: "string list \<Rightarrow> string option \<Rightarrow> string option" where
  "mark sites x =
     (case x of None \<Rightarrow> None
      | Some s \<Rightarrow> if s \<in> set sites then Some (s @ marker) else Some s)"


section \<open>Time aggregation\<close>

text \<open>
  \<^verbatim>\<open>df.groupby([pd.Grouper(key="firstTimeDetected", freq="M"), "neName"])\<close> followed by
  \<^verbatim>\<open>strftime("%Y-%m")\<close>: a row is grouped under the calendar month of its timestamp and
  its site; a row with a null timestamp or a null site is in no group. The month label
  of a timestamp is the library's; it is the parameter \<open>month_of\<close>. The label
  determines the month bin, so grouping by label is grouping by bin.
\<close>

definition month_site_key ::
  "(timestamp \<Rightarrow> 'm) \<Rightarrow> timestamp option row \<Rightarrow> ('m \<times> string) option" where
  "month_site_key month_of r =
     (case firstTimeDetected r of
        None \<Rightarrow> None
      | Some t \<Rightarrow> (case neName r of None \<Rightarrow> None | Some s \<Rightarrow> Some (month_of t, s)))"

definition df_time ::
  "(timestamp \<Rightarrow> 'm::linorder) \<Rightarrow> frame \<Rightarrow> (('m \<times> string) \<times> int) list" where
  "df_time month_of df = groupby_sum (month_site_key month_of) numberOfOccurrences df"

text \<open>
  A labelled matrix: row labels, column labels and the rows of cells. \<^verbatim>\<open>pivot\<close>
  refuses a table with two entries for one (index, column) pair; otherwise the labels
  are the distinct values in ascending order and a pair without an entry has the null
  value. \<^verbatim>\<open>fillna\<close> replaces the nulls.
\<close>

record ('i, 'v) matrix =
  index :: "'i list"
  columns :: "string list"
  cells :: "'v list list"

datatype error = ValueError

definition pivot ::
  "(('i::linorder \<times> string) \<times> int) list \<Rightarrow> error + ('i, int option) matrix" where
  "pivot entries =
     (if \<not> distinct (map fst entries) then Inl ValueError
      else
        let idx = sort (remdups (map (\<lambda>e. fst (fst e)) entries));
            cols = sort (remdups (map (\<lambda>e. snd (fst e)) entries))
        in Inr \<lparr>index = idx, columns = cols,
                cells = map (\<lambda>i. map (\<lambda>c. map_of entries (i, c)) cols) idx\<rparr>)"

definition fillna :: "'v \<Rightarrow> ('i, 'v option) matrix \<Rightarrow> ('i, 'v) matrix" where
  "fillna v m =
     \<lparr>index = index m, columns = columns m,
      cells = map (map (\<lambda>c. case c of None \<Rightarrow> v | Some x \<Rightarrow> x)) (cells m)\<rparr>"

definition pivot_table ::
  "(timestamp \<Rightarrow> 'm::linorder) \<Rightarrow> frame \<Rightarrow> error + ('m, int) matrix" where
  "pivot_table month_of df =
     (case pivot (df_time month_of df) of
        Inl e \<Rightarrow> Inl e
      | Inr m \<Rightarrow> Inr (fillna 0 m))"

definition rename_map :: "string list \<Rightarrow> (string \<times> string) list" where
  "rename_map sites = map (\<lambda>site. (site, site @ marker)) sites"

definition rename_columns ::
  "(string \<times> string) list \<Rightarrow> ('i, 'v) matrix \<Rightarrow> ('i, 'v) matrix" where
  "rename_columns rm m =
     m\<lparr>columns := map (\<lambda>c. case map_of rm c of None \<Rightarrow> c | Some c' \<Rightarrow> c') (columns m)\<rparr>"

text \<open>
  A month label for concrete runs: the pair (year, month) of the proleptic Gregorian
  calendar, from the days since the epoch.
\<close>

definition year_month :: "timestamp \<Rightarrow> int \<times> int" where
  "year_month t =
     (let z = t div 86400000 + 719468;
          era = z div 146097;
          doe = z - era * 146097;
          yoe = (doe - doe div 1460 + doe div 36524 - doe div 146096) div 365;
          doy = doe - (365 * yoe + yoe div 4 - yoe div 100);
          mp = (5 * doy + 2) div 153;
          m = (if mp < 10 then mp + 3 else mp - 9)
      in (yoe + era * 400 + (if m \<le> 2 then 1 else 0), m))"


section \<open>Presentation\<close>

text \<open>
  \<^verbatim>\<open>" / ".join(severity_filter).title()\<close>: the selection joined, every letter that
  starts a run of letters in upper case and the others in lower case.
\<close>

definition upper_char :: "char \<Rightarrow> char" where
  "upper_char c =
     (if CHR ''a'' \<le> c \<and> c \<le> CHR ''z'' then char_of (of_char c - (32::nat)) else c)"

fun join :: "string \<Rightarrow> string list \<Rightarrow> string" where
  "join sep [] = []"
| "join sep [x] = x"
| "join sep (x # y # ys) = x @ sep @ join sep (y # ys)"

fun title_from :: "bool \<Rightarrow> string \<Rightarrow> string" where
  "title_from previous_is_cased [] = []"
| "title_from previous_is_cased (c # cs) =
     (if CHR ''a'' \<le> c \<and> c \<le> CHR ''z''
      then (if previous_is_cased then c else upper_char c) # title_from True cs
      else if CHR ''A'' \<le> c \<and> c \<le> CHR ''Z''
      then (if previous_is_cased then lower_char c else c) # title_from True cs
      else c # title_from False cs)"

definition severity_label :: "string list \<Rightarrow> string" where
  "severity_label severity_filter =
     (if severity_filter \<noteq> [] then title_from False (join '' / '' severity_filter)
      else ''All Severities'')"

text \<open>
  The values shown on the summary cards: an integer, a fraction, or the value the
  library gives for the mean of no numbers. Fractions are exact here, where the library
  computes with binary floating point.
\<close>

datatype number = IntNum int | FloatNum rat | NaN

definition series_mean :: "int list \<Rightarrow> number" where
  "series_mean xs =
     (if xs = [] then NaN else FloatNum (of_int (sum_list xs) / of_int (int (length xs))))"

definition round_half_even :: "rat \<Rightarrow> int" where
  "round_half_even q =
     (let f = \<lfloor>q\<rfloor>; d = q - of_int f
      in if d < 1 / 2 then f else if 1 / 2 < d then f + 1 else if even f then f else f + 1)"

fun round2 :: "number \<Rightarrow> number" where
  "round2 (FloatNum q) = FloatNum (of_int (round_half_even (q * 100)) / 100)"
| "round2 n = n"

text \<open>
  What the script puts on the page, in order. The two call-outs keep the parts of their
  text (site, total, label) apart.
\<close>

datatype 'm ui =
    Subheader string
  | Dataframe frame
  | Warning string
  | Metric string number
  | Success string int string
  | Info string int string
  | Bar_chart "(string \<times> int) list" string
  | Imshow "('m, int) matrix" string

definition summary_cards :: "string \<Rightarrow> (string \<times> int) list \<Rightarrow> 'm ui list" where
  "summary_cards label sc =
     [Metric (''Total '' @ label) (IntNum (sum_list (map snd sc))),
      Metric (''Average '' @ label @ '' per Site'') (round2 (series_mean (map snd sc))),
      Metric ''Number of Sites'' (IntNum (int (length sc)))]"

definition top_site_callouts :: "string \<Rightarrow> (string \<times> int) list \<Rightarrow> 'm ui list" where
  "top_site_callouts label sc =
     (case sc of
        [] \<Rightarrow> []
      | top_site # rest \<Rightarrow>
          [Subheader (''Most '' @ label @ '' Site''),
           Success (fst top_site) (snd top_site) label] @
          (case rest of
             [] \<Rightarrow> []
           | next_site # _ \<Rightarrow>
               [Subheader (''Next Predicted '' @ label @ '' Site''),
                Info (fst next_site) (snd next_site) label]))"

definition heatmap :: "string \<Rightarrow> (string \<times> int) list \<Rightarrow> ('m, int) matrix \<Rightarrow> 'm ui" where
  "heatmap label sc pt =
     Imshow (if sc \<noteq> [] then rename_columns (rename_map (top_sites sc)) pt else pt)
       (''Heatmap of '' @ label @ '' by Site (horizontal) and Month (vertical)'')"


section \<open>The script on a store of frames\<close>

text \<open>
  Frames are objects: a variable of the script holds a reference, and an assignment to a
  column changes the frame that the reference points to. The store is the list of the
  frames allocated so far and a reference is a position in it. Selecting rows and
  \<^verbatim>\<open>copy\<close> allocate a new frame; \<^verbatim>\<open>df_display["neName"] = ...\<close> overwrites
  the frame of \<^verbatim>\<open>df_display\<close> in place. The site totals, the grouped table and
  the matrix are built from the frame they read and are held by one variable each, so
  they are plain values. After the filter step \<^verbatim>\<open>df\<close> refers to the frame that
  \<open>filter_data\<close> computes: the loaded frame itself when the selection is empty, a
  new frame otherwise.
\<close>

type_synonym ref = nat
type_synonym store = "frame list"

definition alloc :: "store \<Rightarrow> frame \<Rightarrow> ref \<times> store" where
  "alloc st f = (length st, st @ [f])"

definition assign_neName :: "store \<Rightarrow> ref \<Rightarrow> (string option \<Rightarrow> string option) \<Rightarrow> store" where
  "assign_neName st a f = st[a := map (\<lambda>r. r\<lparr>neName := f (neName r)\<rparr>) (st ! a)]"

definition filter_step :: "string list \<Rightarrow> ref \<Rightarrow> store \<Rightarrow> ref \<times> store" where
  "filter_step severity_filter df st =
     (if severity_filter \<noteq> []
      then alloc st
             (filter (\<lambda>r. isin (map_option str_lower (severity r)) severity_filter) (st ! df))
      else (df, st))"

definition alarm_details :: "(string \<times> int) list \<Rightarrow> ref \<Rightarrow> store \<Rightarrow> 'm ui list \<times> store" where
  "alarm_details sc df st =
     (if sc \<noteq> []
      then
        let (df_display, st1) = alloc st (st ! df);
            st2 = assign_neName st1 df_display (mark (top_sites sc))
        in ([Dataframe (st2 ! df_display)], st2)
      else ([Warning ''No alarms to display.''], st))"

text \<open>
  One run of the script below the loader, from the filter to the heatmap: the loaded
  frame is the first object of the store and \<^verbatim>\<open>df\<close> refers to it; the sidebar
  supplies the selection. The result is the page and the final store, or the error of
  \<^verbatim>\<open>pivot\<close>.
\<close>

definition script ::
  "(timestamp \<Rightarrow> 'm::linorder) \<Rightarrow> string list \<Rightarrow> frame \<Rightarrow> error + ('m ui list \<times> store)" where
  "script month_of severity_filter loaded =
     (let (df, st1) = filter_step severity_filter 0 [loaded];
          label = severity_label severity_filter;
          sc = site_criticals (st1 ! df);
          (details, st2) = alarm_details sc df st1
      in case pivot_table month_of (st2 ! df) of
           Inl e \<Rightarrow> Inl e
         | Inr pt \<Rightarrow>
             Inr ([Subheader ''Alarm Details''] @ details @
                  summary_cards label sc @
                  top_site_callouts label sc @
                  [Subheader ''Charts'',
                   Bar_chart sc (label @ '' by Site''),
                   heatmap label sc pt],
                  st2))"



section \<open>Properties of the loader\<close>

lemma load_data_filter_map:
  "load_data to_datetime xlsx =
     map (convert_row to_datetime)
       (filter (\<lambda>r. to_datetime (firstTimeDetected r) \<noteq> None) xlsx)"
  by (simp add: load_data_def dropna_firstTimeDetected_def filter_map o_def convert_row_def)


section \<open>Properties of the aggregation\<close>














lemma sort_values_desc_length: "length (sort_values_desc t) = length t"
  by (simp add: sort_values_desc_def)

lemma sort_values_desc_Nil: "sort_values_desc t = [] \<longleftrightarrow> t = []"
  using sort_values_desc_length [of t] by (cases t) auto







section \<open>Properties of the matrix\<close>










section \<open>Properties of the script\<close>





section \<open>The loader keeps the rows with a valid first detection time\<close>

text \<open>
  Claim C3. For every input table, the loader returns the input rows whose first
  detection value converts to a timestamp, in their order and with the time columns
  converted; their number is the number of input rows minus the number of rows whose
  value does not convert; and every row it returns has a first detection time that is
  not null.
\<close>

theorem load_data_valid_rows:
  "load_data to_datetime xlsx =
     map (convert_row to_datetime)
       (filter (\<lambda>r. to_datetime (firstTimeDetected r) \<noteq> None) xlsx) \<and>
   length (load_data to_datetime xlsx) =
     length xlsx - length (filter (\<lambda>r. to_datetime (firstTimeDetected r) = None) xlsx) \<and>
   (\<forall>r\<in>set (load_data to_datetime xlsx). firstTimeDetected r \<noteq> None)"
proof (intro conjI)
  let ?valid = "\<lambda>r. to_datetime (firstTimeDetected r) \<noteq> None"
  show eq: "load_data to_datetime xlsx = map (convert_row to_datetime) (filter ?valid xlsx)"
    by (rule load_data_filter_map)
  have "length (filter ?valid xlsx) + length (filter (\<lambda>r. \<not> ?valid r) xlsx) = length xlsx"
    by (rule sum_length_filter_compl)
  then show "length (load_data to_datetime xlsx) =
      length xlsx - length (filter (\<lambda>r. to_datetime (firstTimeDetected r) = None) xlsx)"
    by (simp add: eq)
  show "\<forall>r\<in>set (load_data to_datetime xlsx). firstTimeDetected r \<noteq> None"
    by (simp add: load_data_def dropna_firstTimeDetected_def)
qed

theorem load_data_valid_rows_witness:
  "load_data to_datetime_ms
     [\<lparr>neName = Some ''A'', severity = Some ''critical'', numberOfOccurrences = 5,
       firstTimeDetected = Some 1704412800000, lastTimeDetected = Some None\<rparr>,
      \<lparr>neName = Some ''B'', severity = Some ''major'', numberOfOccurrences = 2,
       firstTimeDetected = None, lastTimeDetected = Some (Some 1704412800000)\<rparr>,
      \<lparr>neName = Some ''C'', severity = Some ''minor'', numberOfOccurrences = 1,
       firstTimeDetected = Some 10000000000000000, lastTimeDetected = Some None\<rparr>] =
     [\<lparr>neName = Some ''A'', severity = Some ''critical'', numberOfOccurrences = 5,
       firstTimeDetected = Some 1704412800000, lastTimeDetected = Some None\<rparr>] \<and>
   length (load_data to_datetime_ms
     [\<lparr>neName = Some ''A'', severity = Some ''critical'', numberOfOccurrences = 5,
       firstTimeDetected = Some 1704412800000, lastTimeDetected = Some None\<rparr>,
      \<lparr>neName = Some ''B'', severity = Some ''major'', numberOfOccurrences = 2,
       firstTimeDetected = None, lastTimeDetected = Some (Some 1704412800000)\<rparr>,
      \<lparr>neName = Some ''C'', severity = Some ''minor'', numberOfOccurrences = 1,
       firstTimeDetected = Some 10000000000000000, lastTimeDetected = Some None\<rparr>]) = 3 - 2"
  using load_data_valid_rows [of to_datetime_ms
     "[\<lparr>neName = Some ''A'', severity = Some ''critical'', numberOfOccurrences = 5,
       firstTimeDetected = Some 1704412800000, lastTimeDetected = Some None\<rparr>,
      \<lparr>neName = Some ''B'', severity = Some ''major'', numberOfOccurrences = 2,
       firstTimeDetected = None, lastTimeDetected = Some (Some 1704412800000)\<rparr>,
      \<lparr>neName = Some ''C'', severity = Some ''minor'', numberOfOccurrences = 1,
       firstTimeDetected = Some 10000000000000000, lastTimeDetected = Some None\<rparr>]"]
  by (simp add: to_datetime_ms_def convert_row_def)


section \<open>The filter\<close>

text \<open>
  Claim C4. Filtering by the empty selection returns the loaded frame itself: every
  row passes and the size is unchanged. In the script, \<^verbatim>\<open>df\<close> then still refers to
  the loaded frame and nothing is allocated.
\<close>

theorem empty_selection_passes_all:
  "filter_data [] df = df \<and> length (filter_data [] df) = length df \<and>
   filter_step [] 0 [df] = (0, [df])"
  by (simp add: filter_data_def filter_step_def)

theorem empty_selection_passes_all_witness:
  "filter_data []
     [\<lparr>neName = Some ''A'', severity = Some ''critical'', numberOfOccurrences = 5,
       firstTimeDetected = Some 1704412800000, lastTimeDetected = None\<rparr>,
      \<lparr>neName = Some ''A'', severity = Some ''warning'', numberOfOccurrences = 100,
       firstTimeDetected = Some 1704499200000, lastTimeDetected = None\<rparr>] =
     [\<lparr>neName = Some ''A'', severity = Some ''critical'', numberOfOccurrences = 5,
       firstTimeDetected = Some 1704412800000, lastTimeDetected = None\<rparr>,
      \<lparr>neName = Some ''A'', severity = Some ''warning'', numberOfOccurrences = 100,
       firstTimeDetected = Some 1704499200000, lastTimeDetected = None\<rparr>]"
  using empty_selection_passes_all [of
     "[\<lparr>neName = Some ''A'', severity = Some ''critical'', numberOfOccurrences = 5,
       firstTimeDetected = Some 1704412800000, lastTimeDetected = None\<rparr>,
      \<lparr>neName = Some ''A'', severity = Some ''warning'', numberOfOccurrences = 100,
       firstTimeDetected = Some 1704499200000, lastTimeDetected = None\<rparr>]"]
  by simp





section \<open>The month by site matrix\<close>






section \<open>The loaded frame after a run\<close>




section \<open>Severities outside the vocabulary\<close>





section \<open>The page when there are no site totals\<close>







section \<open>The grand total\<close>






section \<open>Top sites\<close>






text \<open>
  The run on the three rows of the scenario under the selection of "critical": the
  totals tie at 5 and both sites carry the marker, in the record table and on the site
  axis of the heatmap; the first site alone is in the call-out of the top site.
\<close>

lemma tie_scenario_run:
  "script year_month [''critical'']
       [\<lparr>neName = Some ''A'', severity = Some ''critical'', numberOfOccurrences = 5,
         firstTimeDetected = Some 1704412800000, lastTimeDetected = None\<rparr>,
        \<lparr>neName = Some ''B'', severity = Some ''critical'', numberOfOccurrences = 5,
         firstTimeDetected = Some 1707523200000, lastTimeDetected = None\<rparr>,
        \<lparr>neName = Some ''A'', severity = Some ''minor'', numberOfOccurrences = 100,
         firstTimeDetected = Some 1704499200000, lastTimeDetected = None\<rparr>] =
     Inr ([Subheader ''Alarm Details'',
           Dataframe
             [\<lparr>neName = Some (''A'' @ marker), severity = Some ''critical'',
               numberOfOccurrences = 5,
               firstTimeDetected = Some 1704412800000, lastTimeDetected = None\<rparr>,
              \<lparr>neName = Some (''B'' @ marker), severity = Some ''critical'',
               numberOfOccurrences = 5,
               firstTimeDetected = Some 1707523200000, lastTimeDetected = None\<rparr>],
           Metric ''Total Critical'' (IntNum 10),
           Metric ''Average Critical per Site'' (FloatNum 5),
           Metric ''Number of Sites'' (IntNum 2),
           Subheader ''Most Critical Site'',
           Success ''A'' 5 ''Critical'',
           Subheader ''Next Predicted Critical Site'',
           Info ''B'' 5 ''Critical'',
           Subheader ''Charts'',
           Bar_chart [(''A'', 5), (''B'', 5)] ''Critical by Site'',
           Imshow \<lparr>index = [(2024, 1), (2024, 2)],
                   columns = [''A'' @ marker, ''B'' @ marker],
                   cells = [[5, 0], [0, 5]]\<rparr>
             ''Heatmap of Critical by Site (horizontal) and Month (vertical)''],
          [[\<lparr>neName = Some ''A'', severity = Some ''critical'', numberOfOccurrences = 5,
             firstTimeDetected = Some 1704412800000, lastTimeDetected = None\<rparr>,
            \<lparr>neName = Some ''B'', severity = Some ''critical'', numberOfOccurrences = 5,
             firstTimeDetected = Some 1707523200000, lastTimeDetected = None\<rparr>,
            \<lparr>neName = Some ''A'', severity = Some ''minor'', numberOfOccurrences = 100,
             firstTimeDetected = Some 1704499200000, lastTimeDetected = None\<rparr>],
           [\<lparr>neName = Some ''A'', severity = Some ''critical'', numberOfOccurrences = 5,
             firstTimeDetected = Some 1704412800000, lastTimeDetected = None\<rparr>,
            \<lparr>neName = Some ''B'', severity = Some ''critical'', numberOfOccurrences = 5,
             firstTimeDetected = Some 1707523200000, lastTimeDetected = None\<rparr>],
           [\<lparr>neName = Some (''A'' @ marker), severity = Some ''critical'',
             numberOfOccurrences = 5,
             firstTimeDetected = Some 1704412800000, lastTimeDetected = None\<rparr>,
            \<lparr>neName = Some (''B'' @ marker), severity = Some ''critical'',
             numberOfOccurrences = 5,
             firstTimeDetected = Some 1707523200000, lastTimeDetected = None\<rparr>]])"
  by code_simp


section \<open>Rows without a site\<close>











end
